theory Spec2Isabelle
  imports Main
begin

section \<open>The Tailwind configuration of badgematic\<close>

text \<open>
  \<^verbatim>\<open>src/tailwind.config.js\<close> is one module whose default export is an object literal
  with the four properties \<^verbatim>\<open>content\<close>, \<^verbatim>\<open>theme\<close>, \<^verbatim>\<open>plugins\<close> and \<^verbatim>\<open>daisyui\<close>.
  The module assigns to nothing and calls one function, \<^verbatim>\<open>require\<close>, which the host
  supplies. The embedding keeps the shape of the literal: an array is a list, an object
  literal is the list of its (key, value) properties in source order, and the exported
  object, whose four keys are fixed, is a record.
\<close>

subsection \<open>Objects and property reads\<close>

text \<open>
  An object literal of string-valued properties. JavaScript keeps the value written last
  when a literal repeats a key, so a property read looks the key up from the end; a key
  the object does not have reads as \<^verbatim>\<open>undefined\<close>, here \<open>None\<close>.
\<close>

type_synonym 'v js_object = "(string \<times> 'v) list"

definition get_prop :: "'v js_object \<Rightarrow> string \<Rightarrow> 'v option" where
  "get_prop obj k = map_of (rev obj) k"

definition own_keys :: "'v js_object \<Rightarrow> string list" where
  "own_keys obj = map fst obj"

subsection \<open>The exported object\<close>

text \<open>\<^verbatim>\<open>theme: { extend: {} }\<close>: the source gives \<^verbatim>\<open>extend\<close> no property, so the type
  of its values is not determined by the code; strings stand for them. The field is
  named \<open>theme_extend\<close>, since a record cannot have a field \<open>extend\<close>.\<close>

record theme_config =
  theme_extend :: "string js_object"

text \<open>\<^verbatim>\<open>daisyui: { themes: [ {name: {role: color, ...}}, ... ] }\<close>: an array of objects,
  each mapping a theme name to the object of its colour roles.\<close>

record daisyui_config =
  themes :: "string js_object js_object list"

record 'm tailwind_config =
  content :: "string list"
  theme :: theme_config
  plugins :: "'m list"
  daisyui :: daisyui_config

text \<open>Lines 12 to 29: the value of the key \<^verbatim>\<open>"brand-light"\<close>.\<close>

definition brand_light :: "string js_object" where
  "brand_light =
    [(''primary'', ''#0E2A30''),
     (''secondary'', ''#AFB3A8''),
     (''accent'', ''#FF542E''),
     (''neutral'', ''#020F13''),
     (''base-100'', ''#F9F9F9''),
     (''base-200'', ''#D6DFE0''),
     (''base-300'', ''#AFB3A8''),
     (''primary-content'', ''#F9F9F9''),
     (''secondary-content'', ''#020F13''),
     (''accent-content'', ''#020F13''),
     (''neutral-content'', ''#F9F9F9''),
     (''base-content'', ''#020F13''),
     (''info'', ''#3A8FB7''),
     (''success'', ''#27856A''),
     (''warning'', ''#F59E0B''),
     (''error'', ''#DC2626'')]"

text \<open>Lines 32 to 49: the value of the key \<^verbatim>\<open>"brand-teal-surface"\<close>.\<close>

definition brand_teal_surface :: "string js_object" where
  "brand_teal_surface =
    [(''primary'', ''#0E2A30''),
     (''secondary'', ''#AFB3A8''),
     (''accent'', ''#FF542E''),
     (''neutral'', ''#020F13''),
     (''base-100'', ''#0E2A30''),
     (''base-200'', ''#0B2125''),
     (''base-300'', ''#08191C''),
     (''primary-content'', ''#F9F9F9''),
     (''secondary-content'', ''#020F13''),
     (''accent-content'', ''#020F13''),
     (''neutral-content'', ''#F9F9F9''),
     (''base-content'', ''#F9F9F9''),
     (''info'', ''#69B7D1''),
     (''success'', ''#35A387''),
     (''warning'', ''#FDBA74''),
     (''error'', ''#F87171'')]"

text \<open>
  The default export. \<^verbatim>\<open>require\<close> is not defined by the module: it is the parameter
  of the evaluation, a resolver from module names to modules of some type \<open>'m\<close>.
\<close>

definition tailwind_config :: "(string \<Rightarrow> 'm) \<Rightarrow> 'm tailwind_config" where
  "tailwind_config require =
    \<lparr> content =
        [''./app/templates/**/*.html'',
         ''./app/static/**/*.js''],
      theme = \<lparr> theme_extend = [] \<rparr>,
      plugins = [require ''daisyui''],
      daisyui =
        \<lparr> themes =
            [[(''brand-light'', brand_light)],
             [(''brand-teal-surface'', brand_teal_surface)]] \<rparr> \<rparr>"

text \<open>A resolver for closed examples: the module a name resolves to is identified by
  that name.\<close>

datatype js_module = Module string

subsection \<open>The data model read off the exported object\<close>

text \<open>
  The specification names the parts of the configuration \<open>contentGlobs\<close>,
  \<open>themeExtensions\<close>, \<open>pluginList\<close> and \<open>themeDefinitions\<close>, the last a sequence of
  palettes with a \<open>name\<close> and \<open>colorRoles\<close>. Each is a projection of the exported
  object; the palettes are the properties of the objects of \<^verbatim>\<open>daisyui.themes\<close>, in
  order.
\<close>

record ThemePalette =
  name :: string
  colorRoles :: "string js_object"

definition contentGlobs :: "'m tailwind_config \<Rightarrow> string list" where
  "contentGlobs cfg = content cfg"

definition themeExtensions :: "'m tailwind_config \<Rightarrow> string js_object" where
  "themeExtensions cfg = theme_extend (theme cfg)"

definition pluginList :: "'m tailwind_config \<Rightarrow> 'm list" where
  "pluginList cfg = plugins cfg"

definition themeDefinitions :: "'m tailwind_config \<Rightarrow> ThemePalette list" where
  "themeDefinitions cfg =
    map (\<lambda>(n, roles). \<lparr> name = n, colorRoles = roles \<rparr>) (concat (themes (daisyui cfg)))"

definition palette :: "'m tailwind_config \<Rightarrow> string \<Rightarrow> ThemePalette option" where
  "palette cfg n = find (\<lambda>p. name p = n) (themeDefinitions cfg)"

definition color :: "'m tailwind_config \<Rightarrow> string \<Rightarrow> string \<Rightarrow> string option" where
  "color cfg n role =
    (case palette cfg n of
       None \<Rightarrow> None
     | Some p \<Rightarrow> get_prop (colorRoles p) role)"

subsection \<open>Colour syntax and role names\<close>

text \<open>
  The pattern \<^verbatim>\<open>^#[0-9A-Fa-f]{6}$\<close>: the character \<^verbatim>\<open>#\<close>, then exactly six
  characters, each in one of the ranges \<^verbatim>\<open>0-9\<close>, \<^verbatim>\<open>A-F\<close>, \<^verbatim>\<open>a-f\<close>, and nothing
  after them. The ranges are ranges of character codes.
\<close>

definition in_range :: "char \<Rightarrow> char \<Rightarrow> char \<Rightarrow> bool" where
  "in_range lo hi c = ((of_char lo :: nat) \<le> of_char c \<and> (of_char c :: nat) \<le> of_char hi)"

definition is_hex_digit :: "char \<Rightarrow> bool" where
  "is_hex_digit c =
    (in_range CHR ''0'' CHR ''9'' c \<or> in_range CHR ''A'' CHR ''F'' c \<or> in_range CHR ''a'' CHR ''f'' c)"

fun is_hex_color :: "string \<Rightarrow> bool" where
  "is_hex_color [] = False"
| "is_hex_color (c # cs) = (c = CHR ''#'' \<and> length cs = 6 \<and> list_all is_hex_digit cs)"

text \<open>
  The role names of the specification's data model: \<open>primary\<close>, \<open>secondary\<close>,
  \<open>accent\<close>, \<open>neutral\<close>, \<open>base-100\<close>, \<open>base-200\<close>, \<open>base-300\<close>, each paired with a
  \<open>-content\<close> counterpart, plus \<open>info\<close>, \<open>success\<close>, \<open>warning\<close>, \<open>error\<close>.
  \<open>spec_required_roles\<close> follows these words: every one of the seven names gets the
  counterpart of its own.
\<close>

definition brand_roles :: "string list" where
  "brand_roles = [''primary'', ''secondary'', ''accent'', ''neutral'']"

definition base_roles :: "string list" where
  "base_roles = [''base-100'', ''base-200'', ''base-300'']"

definition status_roles :: "string list" where
  "status_roles = [''info'', ''success'', ''warning'', ''error'']"

definition content_of :: "string \<Rightarrow> string" where
  "content_of role = role @ ''-content''"

definition spec_required_roles :: "string list" where
  "spec_required_roles =
    (brand_roles @ base_roles) @ map content_of (brand_roles @ base_roles) @ status_roles"

text \<open>
  The role names the two palettes of the source are written with: the four brand roles
  have a counterpart each, the three base roles share the one counterpart
  \<open>base-content\<close>.
\<close>

definition palette_roles :: "string list" where
  "palette_roles =
    (brand_roles @ base_roles) @ (map content_of brand_roles @ [''base-content'']) @ status_roles"

section \<open>Properties\<close>

lemma themeDefinitions_tailwind_config:
  "themeDefinitions (tailwind_config require) =
    [\<lparr> name = ''brand-light'', colorRoles = brand_light \<rparr>,
     \<lparr> name = ''brand-teal-surface'', colorRoles = brand_teal_surface \<rparr>]"
  by (simp add: themeDefinitions_def tailwind_config_def)

text \<open>
  C4. \<open>contentGlobs\<close> is exactly the two-element sequence of the literal patterns
  \<^verbatim>\<open>./app/templates/**/*.html\<close> and \<^verbatim>\<open>./app/static/**/*.js\<close>, and has no
  other entry.
\<close>

theorem contentGlobs_exact:
  "contentGlobs (tailwind_config require) =
     [''./app/templates/**/*.html'', ''./app/static/**/*.js'']
   \<and> length (contentGlobs (tailwind_config require)) = 2"
  by (simp add: contentGlobs_def tailwind_config_def)

subsection \<open>The palettes and their names\<close>

text \<open>
  C3. \<open>themeDefinitions\<close> contains exactly two palettes, their names are pairwise
  distinct, and the names are exactly \<open>brand-light\<close> and \<open>brand-teal-surface\<close>.
\<close>

theorem themeDefinitions_two_unique_names:
  "length (themeDefinitions (tailwind_config require)) = 2
   \<and> distinct (map name (themeDefinitions (tailwind_config require)))
   \<and> map name (themeDefinitions (tailwind_config require)) =
       [''brand-light'', ''brand-teal-surface'']
   \<and> set (map name (themeDefinitions (tailwind_config require))) =
       {''brand-light'', ''brand-teal-surface''}"
  by (simp add: themeDefinitions_tailwind_config)

lemma palette_brand_light:
  "palette (tailwind_config require) ''brand-light'' =
    Some \<lparr> name = ''brand-light'', colorRoles = brand_light \<rparr>"
  by (simp add: palette_def themeDefinitions_tailwind_config)

lemma palette_brand_teal_surface:
  "palette (tailwind_config require) ''brand-teal-surface'' =
    Some \<lparr> name = ''brand-teal-surface'', colorRoles = brand_teal_surface \<rparr>"
  by (simp add: palette_def themeDefinitions_tailwind_config)

lemma color_brand_light:
  "color (tailwind_config require) ''brand-light'' role = get_prop brand_light role"
  by (simp add: color_def palette_brand_light)

lemma color_brand_teal_surface:
  "color (tailwind_config require) ''brand-teal-surface'' role =
    get_prop brand_teal_surface role"
  by (simp add: color_def palette_brand_teal_surface)

subsection \<open>Colour values\<close>

text \<open>
  C2. For every entry of \<open>colorRoles\<close> in every palette of \<open>themeDefinitions\<close>, the
  colour value is a string matching \<^verbatim>\<open>^#[0-9A-Fa-f]{6}$\<close>.
\<close>

theorem colorRoles_values_hex:
  "\<forall>p \<in> set (themeDefinitions (tailwind_config require)).
     \<forall>(role, v) \<in> set (colorRoles p). is_hex_color v"
  by (simp add: themeDefinitions_tailwind_config brand_light_def brand_teal_surface_def
      is_hex_digit_def in_range_def)

text \<open>The theorem at the palette \<open>brand-teal-surface\<close> and its entry \<open>warning\<close>.\<close>

theorem colorRoles_values_hex_witness:
  "\<lparr> name = ''brand-teal-surface'', colorRoles = brand_teal_surface \<rparr>
      \<in> set (themeDefinitions (tailwind_config Module))
   \<and> (''warning'', ''#FDBA74'') \<in> set brand_teal_surface
   \<and> is_hex_color ''#FDBA74''"
proof -
  let ?p = "\<lparr> name = ''brand-teal-surface'', colorRoles = brand_teal_surface \<rparr>"
  have p: "?p \<in> set (themeDefinitions (tailwind_config Module))"
    by (simp add: themeDefinitions_tailwind_config)
  have e: "(''warning'', ''#FDBA74'') \<in> set (colorRoles ?p)"
    by (simp add: brand_teal_surface_def)
  from colorRoles_values_hex [of Module] p
  have "\<forall>(role, v) \<in> set (colorRoles ?p). is_hex_color v"
    by (rule bspec)
  from this e have "case (''warning'', ''#FDBA74'') of (role, v) \<Rightarrow> is_hex_color v"
    by (rule bspec)
  then have h: "is_hex_color ''#FDBA74''"
    by (simp only: prod.case)
  from e have "(''warning'', ''#FDBA74'') \<in> set brand_teal_surface"
    by (simp only: ThemePalette.simps)
  with p h show ?thesis
    by (intro conjI)
qed

text \<open>
  C5. In the palette named \<open>brand-light\<close>, \<open>colorRoles.primary\<close> equals \<open>#0E2A30\<close>
  and \<open>colorRoles.base-100\<close> equals \<open>#F9F9F9\<close>.
\<close>

theorem brand_light_primary_base100:
  "color (tailwind_config require) ''brand-light'' ''primary'' = Some ''#0E2A30''
   \<and> color (tailwind_config require) ''brand-light'' ''base-100'' = Some ''#F9F9F9''"
  by (simp add: color_brand_light get_prop_def brand_light_def)

text \<open>
  C6. In the palette named \<open>brand-teal-surface\<close>, \<open>colorRoles.base-100\<close> equals
  \<open>#0E2A30\<close>, the same hex value as the primary colour of both palettes.
\<close>

theorem teal_surface_base100_is_primary:
  "color (tailwind_config require) ''brand-teal-surface'' ''base-100'' = Some ''#0E2A30''
   \<and> color (tailwind_config require) ''brand-light'' ''primary'' = Some ''#0E2A30''
   \<and> color (tailwind_config require) ''brand-teal-surface'' ''primary'' = Some ''#0E2A30''
   \<and> map (\<lambda>p. get_prop (colorRoles p) ''primary'') (themeDefinitions (tailwind_config require)) =
       [Some ''#0E2A30'', Some ''#0E2A30'']"
  by (simp add: color_brand_light color_brand_teal_surface themeDefinitions_tailwind_config
      get_prop_def brand_light_def brand_teal_surface_def)

text \<open>
  C9. The two palettes assign identical hex values to every brand role in the set
  \<open>primary\<close>, \<open>secondary\<close>, \<open>accent\<close>, \<open>neutral\<close>, \<open>primary-content\<close>,
  \<open>secondary-content\<close>, \<open>accent-content\<close>, \<open>neutral-content\<close>: each such role has a
  value in \<open>brand-light\<close>, and \<open>brand-teal-surface\<close> has the same value for it.
\<close>

theorem brand_roles_agree:
  "\<forall>role \<in> {''primary'', ''secondary'', ''accent'', ''neutral'',
      ''primary-content'', ''secondary-content'', ''accent-content'', ''neutral-content''}.
     \<exists>v. color (tailwind_config require) ''brand-light'' role = Some v
        \<and> color (tailwind_config require) ''brand-teal-surface'' role = Some v"
  by (simp add: color_brand_light color_brand_teal_surface get_prop_def
      brand_light_def brand_teal_surface_def)

text \<open>The theorem at the role \<open>accent-content\<close>, whose value is \<open>#020F13\<close> in both.\<close>

theorem brand_roles_agree_witness:
  "''accent-content'' \<in> {''primary'', ''secondary'', ''accent'', ''neutral'',
      ''primary-content'', ''secondary-content'', ''accent-content'', ''neutral-content''}
   \<and> color (tailwind_config Module) ''brand-light'' ''accent-content'' = Some ''#020F13''
   \<and> color (tailwind_config Module) ''brand-teal-surface'' ''accent-content'' =
       color (tailwind_config Module) ''brand-light'' ''accent-content''"
proof -
  have m: "''accent-content'' \<in> {''primary'', ''secondary'', ''accent'', ''neutral'',
      ''primary-content'', ''secondary-content'', ''accent-content'', ''neutral-content''}"
    by simp
  have l: "color (tailwind_config Module) ''brand-light'' ''accent-content'' = Some ''#020F13''"
    by (simp add: color_brand_light get_prop_def brand_light_def)
  from brand_roles_agree [of Module] m
  have "\<exists>v. color (tailwind_config Module) ''brand-light'' ''accent-content'' = Some v
      \<and> color (tailwind_config Module) ''brand-teal-surface'' ''accent-content'' = Some v"
    by (rule bspec)
  then have "color (tailwind_config Module) ''brand-teal-surface'' ''accent-content'' =
      color (tailwind_config Module) ''brand-light'' ''accent-content''"
    by (elim exE conjE) (simp only:)
  with m l show ?thesis
    by (intro conjI)
qed

subsection \<open>Role keys\<close>

lemma own_keys_brand_light: "own_keys brand_light = palette_roles"
  by (simp add: own_keys_def brand_light_def palette_roles_def brand_roles_def base_roles_def
      status_roles_def content_of_def)

lemma own_keys_brand_teal_surface: "own_keys brand_teal_surface = palette_roles"
  by (simp add: own_keys_def brand_teal_surface_def palette_roles_def brand_roles_def
      base_roles_def status_roles_def content_of_def)

lemma distinct_palette_roles: "distinct palette_roles"
  by (simp add: palette_roles_def brand_roles_def base_roles_def status_roles_def
      content_of_def)

lemma length_palette_roles: "length palette_roles = 16"
  by (simp add: palette_roles_def brand_roles_def base_roles_def status_roles_def
      content_of_def)

lemma card_palette_roles: "card (set palette_roles) = 16"
  using distinct_card [OF distinct_palette_roles] by (simp only: length_palette_roles)

text \<open>
  How the role names of the source differ from the enumeration of the specification:
  the three names \<open>base-100-content\<close>, \<open>base-200-content\<close>, \<open>base-300-content\<close> are
  not written, and \<open>base-content\<close> is written in their place.
\<close>

lemma palette_roles_vs_spec_required_roles:
  "filter (\<lambda>role. role \<notin> set palette_roles) spec_required_roles =
     [''base-100-content'', ''base-200-content'', ''base-300-content'']
   \<and> filter (\<lambda>role. role \<notin> set spec_required_roles) palette_roles = [''base-content'']"
  by (simp add: palette_roles_def spec_required_roles_def brand_roles_def base_roles_def
      status_roles_def content_of_def)

text \<open>
  C1, as the specification states it: every palette defines every role of the
  enumeration \<open>spec_required_roles\<close>. It fails at the palette \<open>brand-light\<close> and the
  role \<open>base-100-content\<close>, the counterpart the enumeration pairs with \<open>base-100\<close>: the
  palette has no such key, and reading it gives no value.
\<close>

theorem spec_required_roles_counterexample:
  "palette (tailwind_config Module) ''brand-light'' =
       Some \<lparr> name = ''brand-light'', colorRoles = brand_light \<rparr>
   \<and> ''base-100-content'' \<in> set spec_required_roles
   \<and> ''base-100-content'' \<notin> set (own_keys brand_light)
   \<and> get_prop brand_light ''base-100-content'' = None
   \<and> color (tailwind_config Module) ''brand-light'' ''base-100-content'' = None"
  by (simp add: palette_brand_light color_brand_light spec_required_roles_def brand_roles_def
      base_roles_def status_roles_def content_of_def own_keys_def get_prop_def brand_light_def)

text \<open>
  C1, amended: every palette of \<open>themeDefinitions\<close> defines every role of
  \<open>palette_roles\<close>, that is \<open>primary\<close>, \<open>secondary\<close>, \<open>accent\<close>, \<open>neutral\<close>, each
  with a \<open>-content\<close> counterpart, \<open>base-100\<close>, \<open>base-200\<close>, \<open>base-300\<close> with the one
  shared counterpart \<open>base-content\<close>, and \<open>info\<close>, \<open>success\<close>, \<open>warning\<close>,
  \<open>error\<close>; no role of these sixteen is missing.
\<close>

theorem palettes_define_palette_roles:
  "\<forall>p \<in> set (themeDefinitions (tailwind_config require)).
     \<forall>role \<in> set palette_roles.
       role \<in> set (own_keys (colorRoles p)) \<and> get_prop (colorRoles p) role \<noteq> None"
  by (simp add: themeDefinitions_tailwind_config palette_roles_def brand_roles_def
      base_roles_def status_roles_def content_of_def own_keys_def get_prop_def
      brand_light_def brand_teal_surface_def)

text \<open>The theorem at the palette \<open>brand-teal-surface\<close> and the role \<open>base-content\<close>.\<close>

theorem palettes_define_palette_roles_witness:
  "\<lparr> name = ''brand-teal-surface'', colorRoles = brand_teal_surface \<rparr>
      \<in> set (themeDefinitions (tailwind_config Module))
   \<and> ''base-content'' \<in> set palette_roles
   \<and> ''base-content'' \<in> set (own_keys brand_teal_surface)
   \<and> get_prop brand_teal_surface ''base-content'' \<noteq> None"
proof -
  let ?p = "\<lparr> name = ''brand-teal-surface'', colorRoles = brand_teal_surface \<rparr>"
  have p: "?p \<in> set (themeDefinitions (tailwind_config Module))"
    by (simp add: themeDefinitions_tailwind_config)
  have r: "''base-content'' \<in> set palette_roles"
    by (simp add: palette_roles_def brand_roles_def base_roles_def status_roles_def
        content_of_def)
  from palettes_define_palette_roles [of Module] p
  have "\<forall>role \<in> set palette_roles.
      role \<in> set (own_keys (colorRoles ?p)) \<and> get_prop (colorRoles ?p) role \<noteq> None"
    by (rule bspec)
  from this r
  have "''base-content'' \<in> set (own_keys (colorRoles ?p))
      \<and> get_prop (colorRoles ?p) ''base-content'' \<noteq> None"
    by (rule bspec)
  then have k: "''base-content'' \<in> set (own_keys brand_teal_surface)
      \<and> get_prop brand_teal_surface ''base-content'' \<noteq> None"
    by simp
  from k have k1: "''base-content'' \<in> set (own_keys brand_teal_surface)"
    by (rule conjunct1)
  from k have k2: "get_prop brand_teal_surface ''base-content'' \<noteq> None"
    by (rule conjunct2)
  from p r k1 k2 show ?thesis
    by (intro conjI)
qed

text \<open>
  C10. The two palettes define exactly the same set of sixteen role keys as each other;
  each palette has a single \<open>base-content\<close> key and defines none of
  \<open>base-100-content\<close>, \<open>base-200-content\<close>, \<open>base-300-content\<close>.
\<close>

theorem palettes_same_sixteen_keys:
  "\<exists>l t. themeDefinitions (tailwind_config require) = [l, t]
     \<and> set (own_keys (colorRoles l)) = set (own_keys (colorRoles t))
     \<and> card (set (own_keys (colorRoles l))) = 16
     \<and> card (set (own_keys (colorRoles t))) = 16
     \<and> distinct (own_keys (colorRoles l))
     \<and> distinct (own_keys (colorRoles t))
     \<and> count_list (own_keys (colorRoles l)) ''base-content'' = 1
     \<and> count_list (own_keys (colorRoles t)) ''base-content'' = 1
     \<and> ''base-100-content'' \<notin> set (own_keys (colorRoles l))
     \<and> ''base-200-content'' \<notin> set (own_keys (colorRoles l))
     \<and> ''base-300-content'' \<notin> set (own_keys (colorRoles l))
     \<and> ''base-100-content'' \<notin> set (own_keys (colorRoles t))
     \<and> ''base-200-content'' \<notin> set (own_keys (colorRoles t))
     \<and> ''base-300-content'' \<notin> set (own_keys (colorRoles t))"
proof -
  let ?l = "\<lparr> name = ''brand-light'', colorRoles = brand_light \<rparr>"
  let ?t = "\<lparr> name = ''brand-teal-surface'', colorRoles = brand_teal_surface \<rparr>"
  have one: "count_list palette_roles ''base-content'' = 1"
    by (simp add: palette_roles_def brand_roles_def base_roles_def status_roles_def
        content_of_def)
  have none: "''base-100-content'' \<notin> set palette_roles"
    "''base-200-content'' \<notin> set palette_roles"
    "''base-300-content'' \<notin> set palette_roles"
    by (simp_all add: palette_roles_def brand_roles_def base_roles_def status_roles_def
        content_of_def)
  show ?thesis
    by (rule exI [of _ ?l], rule exI [of _ ?t])
      (simp add: themeDefinitions_tailwind_config own_keys_brand_light
        own_keys_brand_teal_surface card_palette_roles distinct_palette_roles one none)
qed

subsection \<open>Plugins and theme extensions\<close>

text \<open>
  C8. \<open>pluginList\<close> contains exactly one plugin, the module that \<^verbatim>\<open>require\<close>
  resolves \<open>daisyui\<close> to, and \<open>themeExtensions\<close> is empty.
\<close>

theorem pluginList_daisyui_themeExtensions_empty:
  "pluginList (tailwind_config require) = [require ''daisyui'']
   \<and> length (pluginList (tailwind_config require)) = 1
   \<and> themeExtensions (tailwind_config require) = []"
  by (simp add: pluginList_def themeExtensions_def tailwind_config_def)

end
